theory Spec2Isabelle
  imports Main
begin

section \<open>JavaScript values used by migration.js\<close>

text \<open>
  The script handles three kinds of JavaScript values that need care:
  \<^item> numbers produced by \<^verbatim>\<open>parseInt\<close>: an integer or \<^verbatim>\<open>NaN\<close>.  Identifiers are
    integers of PostgreSQL key columns, far inside the range where JavaScript numbers
    are exact, so they are modelled as \<open>int\<close>;
  \<^item> the result of a property read on a lookup object: the stored object or
    \<^verbatim>\<open>undefined\<close>, written \<open>'a option\<close> with \<open>None\<close> for \<^verbatim>\<open>undefined\<close>;
  \<^item> a document field that can hold an object, \<^verbatim>\<open>undefined\<close> or \<^verbatim>\<open>null\<close>.
  A text column that may be SQL NULL arrives as a string or \<^verbatim>\<open>null\<close>: \<open>string option\<close>.
\<close>

datatype jsnum = NaN | Num int

datatype 'a jsfield = Undefined | Null | Object 'a

text \<open>
  The conditional \<^verbatim>\<open>x ? f(x) : d\<close> on a nullable string (\<^verbatim>\<open>null\<close> and the empty
  string are falsy) and on a nullable number (\<^verbatim>\<open>null\<close> and \<open>0\<close> are falsy).
\<close>

definition if_truthy_str :: "string option \<Rightarrow> (string \<Rightarrow> 'a) \<Rightarrow> 'a \<Rightarrow> 'a" where
  "if_truthy_str x f d = (case x of None \<Rightarrow> d | Some s \<Rightarrow> if s = [] then d else f s)"

definition if_truthy_int :: "int option \<Rightarrow> (int \<Rightarrow> 'a) \<Rightarrow> 'a \<Rightarrow> 'a" where
  "if_truthy_int x f d = (case x of None \<Rightarrow> d | Some k \<Rightarrow> if k = 0 then d else f k)"

text \<open>
  \<^verbatim>\<open>xs.filter(Boolean)\<close> on a list of lookup results: objects are truthy,
  \<^verbatim>\<open>undefined\<close> is dropped.
\<close>

fun filter_Boolean :: "'a option list \<Rightarrow> 'a list" where
  "filter_Boolean [] = []"
| "filter_Boolean (None # xs) = filter_Boolean xs"
| "filter_Boolean (Some x # xs) = x # filter_Boolean xs"

subsection \<open>String.prototype.split with a one-character separator\<close>

text \<open>
  \<^verbatim>\<open>s.split(',')\<close> cuts at every separator and keeps empty pieces; the empty string
  gives one empty piece.
\<close>

fun js_split :: "char \<Rightarrow> string \<Rightarrow> string list" where
  "js_split sep [] = [[]]"
| "js_split sep (c # cs) =
     (if c = sep then [] # js_split sep cs
      else (case js_split sep cs of
              [] \<Rightarrow> [[c]]
            | p # ps \<Rightarrow> (c # p) # ps))"

subsection \<open>parseInt without a radix argument\<close>

text \<open>
  \<^verbatim>\<open>parseInt(s)\<close>: leading white space is skipped, one sign is read, a \<^verbatim>\<open>0x\<close> or
  \<^verbatim>\<open>0X\<close> prefix selects radix 16 (radix 10 otherwise), the longest run of digits
  of that radix is read, and anything after it is ignored.  No digit at all gives
  \<^verbatim>\<open>NaN\<close>.  White space is restricted to the ASCII characters here.
\<close>

definition is_ws :: "char \<Rightarrow> bool" where
  "is_ws c = (c \<in> set [CHR 0x20, CHR 0x09, CHR 0x0A, CHR 0x0B, CHR 0x0C, CHR 0x0D])"

definition digit_val :: "char \<Rightarrow> nat option" where
  "digit_val c =
     (let n = (of_char c :: nat) in
      if 48 \<le> n \<and> n \<le> 57 then Some (n - 48)
      else if 97 \<le> n \<and> n \<le> 102 then Some (n - 87)
      else if 65 \<le> n \<and> n \<le> 70 then Some (n - 55)
      else None)"

definition is_digit :: "nat \<Rightarrow> char \<Rightarrow> bool" where
  "is_digit radix c = (case digit_val c of None \<Rightarrow> False | Some d \<Rightarrow> d < radix)"

definition digits_value :: "nat \<Rightarrow> string \<Rightarrow> nat" where
  "digits_value radix ds =
     foldl (\<lambda>acc c. acc * radix + (case digit_val c of None \<Rightarrow> 0 | Some d \<Rightarrow> d)) 0 ds"

definition strip_sign :: "string \<Rightarrow> int \<times> string" where
  "strip_sign s =
     (case s of
        [] \<Rightarrow> (1, [])
      | c # cs \<Rightarrow> if c = CHR ''-'' then (- 1, cs)
                 else if c = CHR ''+'' then (1, cs)
                 else (1, s))"

definition strip_radix :: "string \<Rightarrow> nat \<times> string" where
  "strip_radix s =
     (if take 2 s = ''0x'' \<or> take 2 s = ''0X'' then (16, drop 2 s) else (10, s))"

definition parseInt :: "string \<Rightarrow> jsnum" where
  "parseInt s =
     (let (sign, s1) = strip_sign (dropWhile is_ws s);
          (radix, s2) = strip_radix s1;
          ds = takeWhile (is_digit radix) s2
      in if ds = [] then NaN else Num (sign * int (digits_value radix ds)))"

text \<open>
  Reading a property of a lookup object with a number as key: the key is the
  number's decimal text, and \<^verbatim>\<open>NaN\<close> is the key \<^verbatim>\<open>"NaN"\<close>, which no row creates.
\<close>

fun js_get :: "(int \<rightharpoonup> 'a) \<Rightarrow> jsnum \<Rightarrow> 'a option" where
  "js_get m NaN = None"
| "js_get m (Num k) = m k"

subsection \<open>Decimal text of an integer\<close>

text \<open>
  \<^verbatim>\<open>n.toString()\<close> and \<^verbatim>\<open>`${n}`\<close> on an integer number, and PostgreSQL's
  \<^verbatim>\<open>n::text\<close> on an integer column, give the same decimal text.
\<close>

definition digit_char :: "nat \<Rightarrow> char" where
  "digit_char d = ''0123456789'' ! d"

fun nat_text :: "nat \<Rightarrow> string" where
  "nat_text n =
     (if n < 10 then [digit_char n]
      else nat_text (n div 10) @ [digit_char (n mod 10)])"

definition int_text :: "int \<Rightarrow> string" where
  "int_text k = (if k < 0 then CHR ''-'' # nat_text (nat (- k)) else nat_text (nat k))"

section \<open>Source rows\<close>

text \<open>
  The rows that the six queries return, with the columns each query selects.
  \<open>'t\<close> is the type of timestamps (JavaScript \<^verbatim>\<open>Date\<close> objects).  The film row carries
  the two aggregate columns as nullable text, the monetary columns as the text the
  driver yields for \<^verbatim>\<open>numeric\<close>, and \<^verbatim>\<open>length\<close> under the name \<open>length_f\<close>.
  The special-features column is nullable text, as the script treats it.  Columns that
  the script dereferences or copies unchanged carry a value in every row.
\<close>

record 't country_row =
  country_id :: int
  country :: string
  last_update :: 't

record 't city_row =
  city_id :: int
  city :: string
  country_id :: int
  last_update :: 't

record 't language_row =
  language_id :: int
  name :: string
  last_update :: 't

record 't category_row =
  category_id :: int
  name :: string
  last_update :: 't

record 't actor_row =
  actor_id :: int
  first_name :: string
  last_name :: string
  last_update :: 't

record 't film_row =
  film_id :: int
  title :: string
  description :: string
  release_year :: int
  rental_duration :: int
  rental_rate :: string
  length_f :: int
  replacement_cost :: string
  rating :: string
  special_features :: "string option"
  last_update :: 't
  language_id :: int
  original_language_id :: "int option"
  category_ids :: "string option"
  actor_ids :: "string option"

text \<open>
  \<^verbatim>\<open>STRING_AGG(DISTINCT fc.category_id::text, ',')\<close> in \<^verbatim>\<open>fetchFilms\<close>: the decimal
  texts of the associated identifiers joined by commas, and SQL NULL when the
  outer join finds no associated row.
\<close>

fun join_comma :: "string list \<Rightarrow> string" where
  "join_comma [] = []"
| "join_comma [p] = p"
| "join_comma (p # q # ps) = p @ CHR '','' # join_comma (q # ps)"

definition string_agg :: "int list \<Rightarrow> string option" where
  "string_agg ks = (if ks = [] then None else Some (join_comma (map int_text ks)))"

section \<open>Target documents\<close>

text \<open>
  The reduced \<^verbatim>\<open>{id, name}\<close> object of the lookup mappings, the actor document and
  the film document.  \<^verbatim>\<open>_id\<close> is \<open>doc_id\<close>, \<^verbatim>\<open>id\<close> is \<open>obj_id\<close>.  \<open>'f\<close> is the
  type of the floating-point numbers that \<^verbatim>\<open>parseFloat\<close> returns.
\<close>

record named_obj =
  obj_id :: int
  name :: string

record 't actor_doc =
  doc_id :: int
  first_name :: string
  last_name :: string
  last_update :: 't

record ('t, 'f) film_doc =
  doc_id :: int
  title :: string
  description :: string
  release_year :: int
  rental_duration :: int
  rental_rate :: 'f
  length_f :: int
  replacement_cost :: 'f
  rating :: string
  special_features :: "string list"
  last_update :: 't
  language :: "named_obj option"
  original_language :: "named_obj jsfield"
  categories :: "named_obj list"
  actors :: "jsnum list"

datatype ('t, 'f) doc = ActorDoc "'t actor_doc" | FilmDoc "('t, 'f) film_doc"

section \<open>Driver calls, the outside world and the state of a run\<close>

text \<open>
  Every awaited driver call of the script is a \<open>call\<close>.  A run is described by what
  is outside the script (\<open>world\<close>): the environment variable, the rows of the six source
  tables, which driver calls raise, and the two built-ins \<^verbatim>\<open>Date.prototype.toISOString\<close>
  and \<^verbatim>\<open>parseFloat\<close>, which are left uninterpreted.  Console output is not modelled.
\<close>

datatype table = Country | City | Language | Category | Actor | Film

datatype ('t, 'f) call =
    PgConnect | RedisConnect | MongoConnect
  | FlushDb
  | DeleteMany string
  | Query table
  | HSet string "(string \<times> string) list"
  | InsertMany string "('t, 'f) doc list"
  | PgEnd | RedisQuit | MongoClose

datatype ('t, 'f) error = Raised "('t, 'f) call"

text \<open>
  The state: the calls issued so far (oldest first), which connections are open, the
  contents of the key-value store and of the document collections, and the three
  handle variables of \<^verbatim>\<open>runMigration\<close> (\<open>True\<close> once a client object is assigned).
\<close>

record ('t, 'f) state =
  trace :: "('t, 'f) call list"
  pg_open :: bool
  redis_open :: bool
  mongo_open :: bool
  redis :: "string \<rightharpoonup> (string \<rightharpoonup> string)"
  mongo :: "string \<Rightarrow> ('t, 'f) doc list"
  pgClient :: bool
  redisClient :: bool
  mongoClient :: bool

record ('t, 'f) world =
  CLEAR_NOSQL_DATA :: "string option"
  country_table :: "'t country_row list"
  city_table :: "'t city_row list"
  language_table :: "'t language_row list"
  category_table :: "'t category_row list"
  actor_table :: "'t actor_row list"
  film_table :: "'t film_row list"
  raises :: "('t, 'f) state \<Rightarrow> ('t, 'f) call \<Rightarrow> bool"
  toISOString :: "'t \<Rightarrow> string"
  parseFloat :: "string \<Rightarrow> 'f"

text \<open>
  What a call that does not raise does to the stores: \<^verbatim>\<open>FLUSHDB\<close> removes every key,
  \<^verbatim>\<open>deleteMany({})\<close> empties a collection, \<^verbatim>\<open>HSET\<close> sets the given fields of the hash
  at the key, \<^verbatim>\<open>insertMany\<close> adds the documents.  A call that raises is taken to leave
  the stores as they were.
\<close>

fun effect :: "('t, 'f) call \<Rightarrow> ('t, 'f) state \<Rightarrow> ('t, 'f) state" where
  "effect PgConnect s = s\<lparr>pg_open := True\<rparr>"
| "effect RedisConnect s = s\<lparr>redis_open := True\<rparr>"
| "effect MongoConnect s = s\<lparr>mongo_open := True\<rparr>"
| "effect FlushDb s = s\<lparr>redis := Map.empty\<rparr>"
| "effect (DeleteMany coll) s = s\<lparr>mongo := (mongo s)(coll := [])\<rparr>"
| "effect (Query t) s = s"
| "effect (HSet key flds) s =
     s\<lparr>redis := (redis s)(key \<mapsto>
         (case redis s key of None \<Rightarrow> map_of flds | Some h \<Rightarrow> h ++ map_of flds))\<rparr>"
| "effect (InsertMany coll docs) s = s\<lparr>mongo := (mongo s)(coll := mongo s coll @ docs)\<rparr>"
| "effect PgEnd s = s\<lparr>pg_open := False\<rparr>"
| "effect RedisQuit s = s\<lparr>redis_open := False\<rparr>"
| "effect MongoClose s = s\<lparr>mongo_open := False\<rparr>"

subsection \<open>Actions: awaited code that may raise\<close>

text \<open>
  An action takes the state and returns the value or the error together with the new
  state.  \<open>await\<close> is \<^verbatim>\<open>const x = await f(); g(x)\<close>; \<open>steps\<close> runs statements in order;
  both stop at the first error, as an exception leaves the enclosing block.
\<close>

type_synonym ('t, 'f, 'a) action =
  "('t, 'f) state \<Rightarrow> (('t, 'f) error + 'a) \<times> ('t, 'f) state"

definition ret :: "'a \<Rightarrow> ('t, 'f, 'a) action" where
  "ret x s = (Inr x, s)"

definition await :: "('t, 'f, 'a) action \<Rightarrow> ('a \<Rightarrow> ('t, 'f, 'b) action) \<Rightarrow> ('t, 'f, 'b) action" where
  "await f g s = (case f s of (Inl e, s') \<Rightarrow> (Inl e, s') | (Inr x, s') \<Rightarrow> g x s')"

fun steps :: "('t, 'f, unit) action list \<Rightarrow> ('t, 'f, unit) action" where
  "steps [] s = (Inr (), s)"
| "steps (a # as) s = (case a s of (Inl e, s') \<Rightarrow> (Inl e, s') | (Inr u, s') \<Rightarrow> steps as s')"

text \<open>\<^verbatim>\<open>for (const x of xs) { await f(x) }\<close>\<close>

fun for_of :: "'a list \<Rightarrow> ('a \<Rightarrow> ('t, 'f, unit) action) \<Rightarrow> ('t, 'f, unit) action" where
  "for_of [] f s = (Inr (), s)"
| "for_of (x # xs) f s = (case f x s of (Inl e, s') \<Rightarrow> (Inl e, s') | (Inr u, s') \<Rightarrow> for_of xs f s')"

text \<open>
  An awaited driver call: it is recorded, then it raises or takes effect, as the
  world decides.
\<close>

definition invoke :: "('t, 'f) world \<Rightarrow> ('t, 'f) call \<Rightarrow> ('t, 'f, unit) action" where
  "invoke w c s =
     (let s1 = s\<lparr>trace := trace s @ [c]\<rparr>
      in if raises w s c then (Inl (Raised c), s1) else (Inr (), effect c s1))"

section \<open>PostgreSQL data fetching functions\<close>

definition fetchCountries :: "('t, 'f) world \<Rightarrow> ('t, 'f, 't country_row list) action" where
  "fetchCountries w = await (invoke w (Query Country)) (\<lambda>res. ret (country_table w))"

definition fetchCities :: "('t, 'f) world \<Rightarrow> ('t, 'f, 't city_row list) action" where
  "fetchCities w = await (invoke w (Query City)) (\<lambda>res. ret (city_table w))"

definition fetchLanguages :: "('t, 'f) world \<Rightarrow> ('t, 'f, int \<rightharpoonup> named_obj) action" where
  "fetchLanguages w =
     await (invoke w (Query Language)) (\<lambda>res.
       ret (foldl (\<lambda>languagesMap lang.
                     languagesMap(language_row.language_id lang \<mapsto>
                       \<lparr>obj_id = language_row.language_id lang,
                        name = language_row.name lang\<rparr>))
                  Map.empty (language_table w)))"

definition fetchCategories :: "('t, 'f) world \<Rightarrow> ('t, 'f, int \<rightharpoonup> named_obj) action" where
  "fetchCategories w =
     await (invoke w (Query Category)) (\<lambda>res.
       ret (foldl (\<lambda>categoriesMap cat.
                     categoriesMap(category_id cat \<mapsto>
                       \<lparr>obj_id = category_id cat, name = category_row.name cat\<rparr>))
                  Map.empty (category_table w)))"

definition fetchActors :: "('t, 'f) world \<Rightarrow> ('t, 'f, 't actor_row list) action" where
  "fetchActors w = await (invoke w (Query Actor)) (\<lambda>res. ret (actor_table w))"

definition fetchFilms :: "('t, 'f) world \<Rightarrow> ('t, 'f, 't film_row list) action" where
  "fetchFilms w = await (invoke w (Query Film)) (\<lambda>res. ret (film_table w))"

section \<open>Redis migration functions\<close>

definition migrateCountriesToRedis :: "('t, 'f) world \<Rightarrow> ('t, 'f, unit) action" where
  "migrateCountriesToRedis w =
     await (fetchCountries w) (\<lambda>countries.
       for_of countries (\<lambda>country.
         invoke w (HSet (''country:'' @ int_text (country_row.country_id country))
           [(''country_id'', int_text (country_row.country_id country)),
            (''country_name'', country_row.country country),
            (''last_update'', toISOString w (country_row.last_update country))])))"

definition migrateCitiesToRedis :: "('t, 'f) world \<Rightarrow> ('t, 'f, unit) action" where
  "migrateCitiesToRedis w =
     await (fetchCities w) (\<lambda>cities.
       for_of cities (\<lambda>city.
         invoke w (HSet (''city:'' @ int_text (city_id city))
           [(''city_id'', int_text (city_id city)),
            (''city_name'', city_row.city city),
            (''country_id'', int_text (city_row.country_id city)),
            (''last_update'', toISOString w (city_row.last_update city))])))"

section \<open>MongoDB migration functions\<close>

definition actorDoc :: "'t actor_row \<Rightarrow> 't actor_doc" where
  "actorDoc actor =
     \<lparr>actor_doc.doc_id = actor_id actor,
      actor_doc.first_name = actor_row.first_name actor,
      actor_doc.last_name = actor_row.last_name actor,
      actor_doc.last_update = actor_row.last_update actor\<rparr>"

definition migrateActorsToMongoDB :: "('t, 'f) world \<Rightarrow> ('t, 'f, unit) action" where
  "migrateActorsToMongoDB w =
     await (fetchActors w) (\<lambda>actors.
       let actorDocs = map actorDoc actors
       in if length actorDocs > 0
          then invoke w (InsertMany ''actors'' (map ActorDoc actorDocs))
          else ret ())"

text \<open>The body of the loop over the film rows: one film row becomes one document.\<close>

definition filmDoc ::
  "('t, 'f) world \<Rightarrow> (int \<rightharpoonup> named_obj) \<Rightarrow> (int \<rightharpoonup> named_obj) \<Rightarrow> 't film_row
     \<Rightarrow> ('t, 'f) film_doc" where
  "filmDoc w languagesMap categoriesMap film =
     (let categories =
            if_truthy_str (category_ids film)
              (\<lambda>ids. filter_Boolean
                        (map (\<lambda>id. js_get categoriesMap (parseInt id)) (js_split CHR '','' ids)))
              [];
          actorIds =
            if_truthy_str (actor_ids film)
              (\<lambda>ids. map (\<lambda>id. parseInt id) (js_split CHR '','' ids))
              []
      in \<lparr>film_doc.doc_id = film_id film,
          film_doc.title = film_row.title film,
          film_doc.description = film_row.description film,
          film_doc.release_year = film_row.release_year film,
          film_doc.rental_duration = film_row.rental_duration film,
          film_doc.rental_rate = parseFloat w (film_row.rental_rate film),
          film_doc.length_f = film_row.length_f film,
          film_doc.replacement_cost = parseFloat w (film_row.replacement_cost film),
          film_doc.rating = film_row.rating film,
          film_doc.special_features =
            if_truthy_str (film_row.special_features film) (js_split CHR '','') [],
          film_doc.last_update = film_row.last_update film,
          film_doc.language = languagesMap (film_row.language_id film),
          film_doc.original_language =
            if_truthy_int (original_language_id film)
              (\<lambda>k. case languagesMap k of None \<Rightarrow> Undefined | Some l \<Rightarrow> Object l)
              Null,
          film_doc.categories = categories,
          film_doc.actors = actorIds\<rparr>)"

definition migrateFilmsToMongoDB ::
  "('t, 'f) world \<Rightarrow> (int \<rightharpoonup> named_obj) \<Rightarrow> (int \<rightharpoonup> named_obj) \<Rightarrow> ('t, 'f, unit) action" where
  "migrateFilmsToMongoDB w languagesMap categoriesMap =
     await (fetchFilms w) (\<lambda>films.
       let filmDocs = map (filmDoc w languagesMap categoriesMap) films
       in if length filmDocs > 0
          then invoke w (InsertMany ''films'' (map FilmDoc filmDocs))
          else ret ())"

section \<open>runMigration\<close>

text \<open>
  The \<^verbatim>\<open>try\<close> block in three parts.  Creating a client object assigns the handle
  variable before the connection is attempted; selecting the database and a
  collection does no input or output and is not a call.
\<close>

definition new_pgClient :: "('t, 'f, unit) action" where
  "new_pgClient s = (Inr (), s\<lparr>pgClient := True\<rparr>)"

definition new_redisClient :: "('t, 'f, unit) action" where
  "new_redisClient s = (Inr (), s\<lparr>redisClient := True\<rparr>)"

definition new_mongoClient :: "('t, 'f, unit) action" where
  "new_mongoClient s = (Inr (), s\<lparr>mongoClient := True\<rparr>)"

definition connect_databases :: "('t, 'f) world \<Rightarrow> ('t, 'f, unit) action" where
  "connect_databases w =
     steps [new_pgClient, invoke w PgConnect,
            new_redisClient, invoke w RedisConnect,
            new_mongoClient, invoke w MongoConnect]"

definition cleanup :: "('t, 'f) world \<Rightarrow> ('t, 'f, unit) action" where
  "cleanup w =
     (if CLEAR_NOSQL_DATA w = Some ''true''
      then steps [invoke w FlushDb,
                  invoke w (DeleteMany ''films''),
                  invoke w (DeleteMany ''actors'')]
      else ret ())"

definition migrate :: "('t, 'f) world \<Rightarrow> ('t, 'f, unit) action" where
  "migrate w =
     steps [migrateCountriesToRedis w,
            migrateCitiesToRedis w,
            await (fetchLanguages w) (\<lambda>languagesMap.
              await (fetchCategories w) (\<lambda>categoriesMap.
                steps [migrateActorsToMongoDB w,
                       migrateFilmsToMongoDB w languagesMap categoriesMap]))]"

definition try_block :: "('t, 'f) world \<Rightarrow> ('t, 'f, unit) action" where
  "try_block w = steps [connect_databases w, cleanup w, migrate w]"

text \<open>The \<^verbatim>\<open>finally\<close> block: each close is behind a test of its handle variable.\<close>

definition when_set :: "(('t, 'f) state \<Rightarrow> bool) \<Rightarrow> ('t, 'f, unit) action \<Rightarrow> ('t, 'f, unit) action" where
  "when_set handle a s = (if handle s then a s else (Inr (), s))"

definition finally_block :: "('t, 'f) world \<Rightarrow> ('t, 'f, unit) action" where
  "finally_block w =
     steps [when_set pgClient (invoke w PgEnd),
            when_set redisClient (invoke w RedisQuit),
            when_set mongoClient (invoke w MongoClose)]"

text \<open>
  How a run ends: the function returns, the process is ended by \<^verbatim>\<open>process.exit\<close> with
  a status, or the promise of \<^verbatim>\<open>runMigration\<close> is rejected with an error nobody handles.

  An error in the \<^verbatim>\<open>try\<close> block enters the \<^verbatim>\<open>catch\<close> block, which logs and calls
  \<^verbatim>\<open>process.exit(1)\<close>.  That call ends the process at once and does not return, so
  control never reaches the \<^verbatim>\<open>finally\<close> block on this path.  Without an error the
  \<^verbatim>\<open>finally\<close> block runs after the \<^verbatim>\<open>try\<close> block; an error raised there has no
  handler.
\<close>

datatype ('t, 'f) ending = Returned | ProcessExit nat | Rejected "('t, 'f) error"

definition runMigration ::
  "('t, 'f) world \<Rightarrow> ('t, 'f) state \<Rightarrow> ('t, 'f) ending \<times> ('t, 'f) state" where
  "runMigration w s =
     (case try_block w s of
        (Inl error, s1) \<Rightarrow> (ProcessExit 1, s1)
      | (Inr u, s1) \<Rightarrow>
          (case finally_block w s1 of
             (Inl error, s2) \<Rightarrow> (Rejected error, s2)
           | (Inr u', s2) \<Rightarrow> (Returned, s2)))"

text \<open>
  The state in which the script starts: nothing called, nothing connected, no handle
  assigned, and the target stores with whatever they held before.
\<close>

definition start ::
  "(string \<rightharpoonup> (string \<rightharpoonup> string)) \<Rightarrow> (string \<Rightarrow> ('t, 'f) doc list) \<Rightarrow> ('t, 'f) state" where
  "start redis0 mongo0 =
     \<lparr>trace = [], pg_open = False, redis_open = False, mongo_open = False,
      redis = redis0, mongo = mongo0,
      pgClient = False, redisClient = False, mongoClient = False\<rparr>"

section \<open>A small source database\<close>

text \<open>
  A concrete world for the examples below: one country, one city, two languages, two
  categories, one actor and one film that refers to a category and to an actor without
  a row.  A timestamp is represented by its ISO text; floating-point values are not
  interpreted.  No driver call raises and the environment variable is unset.
\<close>

definition example_film :: "string film_row" where
  "example_film =
     \<lparr>film_id = 1,
      film_row.title = ''ACADEMY DINOSAUR'',
      film_row.description = ''An epic drama'',
      film_row.release_year = 2006,
      film_row.rental_duration = 6,
      film_row.rental_rate = ''4.99'',
      film_row.length_f = 86,
      film_row.replacement_cost = ''20.99'',
      film_row.rating = ''PG'',
      film_row.special_features = Some ''Trailers,Deleted Scenes'',
      film_row.last_update = ''2006-02-15T05:03:42.000Z'',
      film_row.language_id = 1,
      original_language_id = None,
      category_ids = Some ''1,2,99'',
      actor_ids = Some ''1,99''\<rparr>"

definition example_world :: "(string, unit) world" where
  "example_world =
     \<lparr>CLEAR_NOSQL_DATA = None,
      country_table =
        [\<lparr>country_row.country_id = 20, country = ''Canada'',
          country_row.last_update = ''2006-02-15T04:44:00.000Z''\<rparr>],
      city_table =
        [\<lparr>city_id = 300, city = ''Toronto'', city_row.country_id = 20,
          city_row.last_update = ''2006-02-15T04:45:25.000Z''\<rparr>],
      language_table =
        [\<lparr>language_row.language_id = 1, language_row.name = ''English'',
          language_row.last_update = ''2006-02-15T05:02:19.000Z''\<rparr>,
         \<lparr>language_row.language_id = 7, language_row.name = ''Klingon'',
          language_row.last_update = ''2006-02-15T05:02:19.000Z''\<rparr>],
      category_table =
        [\<lparr>category_id = 1, category_row.name = ''Action'',
          category_row.last_update = ''2006-02-15T04:46:27.000Z''\<rparr>,
         \<lparr>category_id = 2, category_row.name = ''Animation'',
          category_row.last_update = ''2006-02-15T04:46:27.000Z''\<rparr>],
      actor_table =
        [\<lparr>actor_id = 1, actor_row.first_name = ''PENELOPE'', actor_row.last_name = ''GUINESS'',
          actor_row.last_update = ''2006-02-15T04:34:33.000Z''\<rparr>],
      film_table = [example_film],
      raises = (\<lambda>s c. False),
      toISOString = (\<lambda>t. t),
      parseFloat = (\<lambda>x. ())\<rparr>"

text \<open>The lookup mappings that \<^verbatim>\<open>fetchLanguages\<close> and \<^verbatim>\<open>fetchCategories\<close> build from it.\<close>

definition example_languagesMap :: "int \<rightharpoonup> named_obj" where
  "example_languagesMap =
     [1 \<mapsto> \<lparr>obj_id = 1, name = ''English''\<rparr>, 7 \<mapsto> \<lparr>obj_id = 7, name = ''Klingon''\<rparr>]"

definition example_categoriesMap :: "int \<rightharpoonup> named_obj" where
  "example_categoriesMap =
     [1 \<mapsto> \<lparr>obj_id = 1, name = ''Action''\<rparr>, 2 \<mapsto> \<lparr>obj_id = 2, name = ''Animation''\<rparr>]"

text \<open>
  Variants in which one driver call raises: the bulk insert into \<^verbatim>\<open>films\<close>, or the
  close of the relational, the key-value or the document connection.
\<close>

definition film_insert_fails :: "(string, unit) world" where
  "film_insert_fails =
     example_world\<lparr>raises :=
       (\<lambda>s c. case c of InsertMany coll docs \<Rightarrow> coll = ''films'' | _ \<Rightarrow> False)\<rparr>"

definition pg_close_fails :: "(string, unit) world" where
  "pg_close_fails = example_world\<lparr>raises := (\<lambda>s c. c = PgEnd)\<rparr>"

definition redis_close_fails :: "(string, unit) world" where
  "redis_close_fails = example_world\<lparr>raises := (\<lambda>s c. c = RedisQuit)\<rparr>"

definition mongo_close_fails :: "(string, unit) world" where
  "mongo_close_fails = example_world\<lparr>raises := (\<lambda>s c. c = MongoClose)\<rparr>"

text \<open>Target stores that are empty, and target stores that hold earlier records.\<close>

definition empty_stores :: "(string, unit) state" where
  "empty_stores = start Map.empty (\<lambda>coll. [])"

text \<open>
  The state in which the \<^verbatim>\<open>finally\<close> block is entered when the example source is
  migrated into empty stores and nothing raises in the \<^verbatim>\<open>try\<close> block.
\<close>

definition teardown_start :: "(string, unit) state" where
  "teardown_start = snd (try_block example_world empty_stores)"

definition stale_redis :: "string \<rightharpoonup> (string \<rightharpoonup> string)" where
  "stale_redis = [''session:42'' \<mapsto> [''user'' \<mapsto> ''alice'']]"

definition stale_mongo :: "string \<Rightarrow> (string, unit) doc list" where
  "stale_mongo =
     (\<lambda>coll. [])(''actors'' :=
        [ActorDoc \<lparr>actor_doc.doc_id = 500, actor_doc.first_name = ''OLD'',
                   actor_doc.last_name = ''ENTRY'',
                   actor_doc.last_update = ''2005-01-01T00:00:00.000Z''\<rparr>])"

section \<open>Auxiliary notions for the proofs\<close>

text \<open>A decimal digit; the calls of the cleanup step; the calls that close a connection.\<close>

definition is_dec :: "char \<Rightarrow> bool" where
  "is_dec c = (c \<in> set ''0123456789'')"


fun is_close :: "('t, 'f) call \<Rightarrow> bool" where
  "is_close PgEnd = True"
| "is_close RedisQuit = True"
| "is_close MongoClose = True"
| "is_close c = False"


section \<open>Splitting, joining and parsing\<close>

declare nat_text.simps [simp del]

lemmas js_simps =
  parseInt_def is_ws_def strip_sign_def strip_radix_def is_digit_def digit_val_def
  digits_value_def if_truthy_str_def if_truthy_int_def

lemma js_split_not_Nil: "js_split sep s \<noteq> []"
  by (induction s) (auto split: list.splits)

lemma js_split_no_sep: "sep \<notin> set s \<Longrightarrow> js_split sep s = [s]"
  by (induction s) auto

lemma js_split_append:
  "sep \<notin> set p \<Longrightarrow> js_split sep (p @ sep # s) = p # js_split sep s"
  by (induction p) auto

lemma js_split_join:
  "ps \<noteq> [] \<Longrightarrow> \<forall>p\<in>set ps. CHR '','' \<notin> set p \<Longrightarrow> js_split CHR '','' (join_comma ps) = ps"
  by (induction ps rule: join_comma.induct) (auto simp: js_split_no_sep js_split_append)

lemma join_js_split: "join_comma (js_split CHR '','' s) = s"
proof (induction s)
  case Nil
  then show ?case by simp
next
  case (Cons c s)
  then show ?case
    using js_split_not_Nil[of "CHR '',''" s]
    by (cases "js_split CHR '','' s"; cases "tl (js_split CHR '','' s)") auto
qed

lemma js_split_pieces: "p \<in> set (js_split sep s) \<Longrightarrow> sep \<notin> set p"
  by (induction s arbitrary: p) (auto split: if_splits list.splits)

lemma join_comma_not_Nil: "ps \<noteq> [] \<Longrightarrow> \<forall>p\<in>set ps. p \<noteq> [] \<Longrightarrow> join_comma ps \<noteq> []"
  by (induction ps rule: join_comma.induct) auto

subsection \<open>Decimal text is read back by parseInt\<close>

lemma digit_char_dec: "d < 10 \<Longrightarrow> is_dec (digit_char d)"
  unfolding is_dec_def digit_char_def by (simp add: nth_Cons')

lemma lt10_cases: "d < (10::nat) \<Longrightarrow> d \<in> {0, 1, 2, 3, 4, 5, 6, 7, 8, 9}"
  by auto

lemma digit_val_digit_char: "d < 10 \<Longrightarrow> digit_val (digit_char d) = Some d"
  by (drule lt10_cases) (auto simp: digit_val_def digit_char_def)

lemma is_dec_digit_val: "is_dec c \<Longrightarrow> \<exists>d < 10. digit_val c = Some d"
  by (auto simp: is_dec_def digit_val_def)

lemma is_dec_is_digit: "is_dec c \<Longrightarrow> is_digit 10 c"
  using is_dec_digit_val[of c] by (auto simp: is_digit_def)

lemma is_dec_plain:
  "is_dec c \<Longrightarrow>
     \<not> is_ws c \<and> c \<noteq> CHR ''-'' \<and> c \<noteq> CHR ''+'' \<and> c \<noteq> CHR ''x'' \<and> c \<noteq> CHR ''X'' \<and> c \<noteq> CHR '',''"
  by (auto simp: is_dec_def is_ws_def)

lemma nat_text_dec: "c \<in> set (nat_text n) \<Longrightarrow> is_dec c"
proof (induction n arbitrary: c rule: nat_text.induct)
  case (1 n)
  show ?case
  proof (cases "n < 10")
    case True
    with "1.prems" show ?thesis
      by (simp add: nat_text.simps[of n] digit_char_dec)
  next
    case False
    with "1.prems" "1.IH" show ?thesis
      by (auto simp: nat_text.simps[of n] digit_char_dec)
  qed
qed

lemma nat_text_not_Nil: "nat_text n \<noteq> []"
  by (subst nat_text.simps) simp

lemma digits_value_snoc:
  "digits_value r (ds @ [c]) =
     digits_value r ds * r + (case digit_val c of None \<Rightarrow> 0 | Some d \<Rightarrow> d)"
  by (simp add: digits_value_def)

lemma digits_value_nat_text: "digits_value 10 (nat_text n) = n"
proof (induction n rule: nat_text.induct)
  case (1 n)
  show ?case
  proof (cases "n < 10")
    case True
    then show ?thesis
      by (simp add: nat_text.simps[of n] digits_value_def digit_val_digit_char)
  next
    case False
    with "1.IH" show ?thesis
      by (simp add: nat_text.simps[of n] digits_value_snoc digit_val_digit_char)
  qed
qed

lemma parseInt_decimal:
  assumes "s \<noteq> []" and "\<forall>c\<in>set s. is_dec c"
  shows "parseInt s = Num (int (digits_value 10 s))"
    and "parseInt (CHR ''-'' # s) = Num (- int (digits_value 10 s))"
proof -
  obtain c cs where s: "s = c # cs" using assms(1) by (cases s) auto
  have c: "is_dec c" using assms(2) s by simp
  have tw: "takeWhile (is_digit 10) s = s"
    using assms(2) by (simp add: is_dec_is_digit)
  have rad: "strip_radix s = (10, s)"
  proof (cases cs)
    case Nil
    then show ?thesis by (simp add: strip_radix_def s)
  next
    case (Cons d ds)
    then have "is_dec d" using assms(2) s by simp
    then show ?thesis using is_dec_plain[of d] by (simp add: strip_radix_def s Cons)
  qed
  have dw: "dropWhile is_ws s = s"
    using is_dec_plain[OF c] by (simp add: s)
  have ss: "strip_sign s = (1, s)"
    using is_dec_plain[OF c] by (simp add: strip_sign_def s)
  show "parseInt s = Num (int (digits_value 10 s))"
    using assms(1) by (simp add: parseInt_def dw ss rad tw)
  have "\<not> is_ws CHR ''-''" by (simp add: is_ws_def)
  then show "parseInt (CHR ''-'' # s) = Num (- int (digits_value 10 s))"
    using assms(1) by (simp add: parseInt_def strip_sign_def rad tw)
qed

lemma parseInt_int_text: "parseInt (int_text k) = Num k"
  using parseInt_decimal[of "nat_text (nat k)"] parseInt_decimal[of "nat_text (nat (- k))"]
  by (auto simp: int_text_def nat_text_not_Nil nat_text_dec digits_value_nat_text)

lemma int_text_no_comma: "CHR '','' \<notin> set (int_text k)"
proof
  assume "CHR '','' \<in> set (int_text k)"
  then have "is_dec CHR '',''"
    by (auto simp: int_text_def nat_text_dec split: if_splits)
  then show False by (simp add: is_dec_def)
qed

lemma int_text_not_Nil: "int_text k \<noteq> []"
  by (simp add: int_text_def nat_text_not_Nil)

text \<open>An aggregate column is read back as the identifiers it was made from.\<close>

lemma if_truthy_string_agg:
  "if_truthy_str (string_agg ks) (\<lambda>ids. f (map parseInt (js_split CHR '','' ids))) [] =
     (if ks = [] then [] else f (map Num ks))"
proof (cases "ks = []")
  case True
  then show ?thesis by (simp add: string_agg_def if_truthy_str_def)
next
  case False
  then have ne: "join_comma (map int_text ks) \<noteq> []"
    by (intro join_comma_not_Nil) (auto simp: int_text_not_Nil)
  have "js_split CHR '','' (join_comma (map int_text ks)) = map int_text ks"
    using False by (intro js_split_join) (auto simp: int_text_no_comma)
  then show ?thesis
    using False ne by (simp add: string_agg_def if_truthy_str_def comp_def parseInt_int_text)
qed

lemma filter_Boolean_map:
  "filter_Boolean (map m ks) = map (the \<circ> m) (filter (\<lambda>k. k \<in> dom m) ks)"
  by (induction ks) (auto simp: domIff)

section \<open>The film document\<close>

text \<open>
  C3.  The film query delivers the category aggregate of a film as \<open>string_agg ks\<close>,
  where \<open>ks\<close> are the associated category identifiers.  The \<open>categories\<close> list of the
  built document consists of the objects that the category mapping holds for those
  identifiers of \<open>ks\<close> that have an entry, in the order of the aggregate; identifiers
  without an entry are left out.  Building the document cannot raise.
\<close>

theorem film_categories_resolved_in_order:
  "film_doc.categories
     (filmDoc w languagesMap categoriesMap (film\<lparr>category_ids := string_agg ks\<rparr>))
     = map (the \<circ> categoriesMap) (filter (\<lambda>k. k \<in> dom categoriesMap) ks)"
  using if_truthy_string_agg[of ks "\<lambda>ns. filter_Boolean (map (js_get categoriesMap) ns)"]
  by (simp add: filmDoc_def comp_def filter_Boolean_map[of categoriesMap ks, unfolded comp_def])

theorem film_categories_resolved_in_order_witness:
  "string_agg [1, 2, 99] = category_ids example_film \<and>
   film_doc.categories
     (filmDoc example_world example_languagesMap example_categoriesMap example_film)
     = [\<lparr>obj_id = 1, name = ''Action''\<rparr>, \<lparr>obj_id = 2, name = ''Animation''\<rparr>]"
  using film_categories_resolved_in_order
          [where w = example_world and languagesMap = example_languagesMap
             and categoriesMap = example_categoriesMap and film = example_film
             and ks = "[1, 2, 99]"]
  by (simp add: example_film_def example_categoriesMap_def string_agg_def int_text_def
        nat_text.simps digit_char_def)

text \<open>
  C4, as the script behaves.  The example film refers to actor 99, the actor table has
  no such row, and 99 is in the \<open>actors\<close> list of the document all the same.
\<close>

theorem film_actor_ids_kept_counterexample:
  "99 \<notin> set (map actor_id (actor_table example_world)) \<and>
   actor_ids example_film = Some ''1,99'' \<and>
   film_doc.actors
     (filmDoc example_world example_languagesMap example_categoriesMap example_film)
     = [Num 1, Num 99]"
  by (simp add: example_world_def example_film_def filmDoc_def js_simps)

text \<open>
  C4, amended.  Every actor identifier of the film's actor aggregate is kept in the
  \<open>actors\<close> list of the document, in the order of the aggregate, whatever rows the
  actor table has: the identifiers are not checked against it, and nothing raises.
\<close>

theorem film_actor_ids_kept:
  "film_doc.actors (filmDoc w languagesMap categoriesMap (film\<lparr>actor_ids := string_agg ks\<rparr>))
     = map Num ks"
  using if_truthy_string_agg[of ks "\<lambda>ns. ns"]
  by (simp add: filmDoc_def)

theorem film_actor_ids_kept_witness:
  "film_doc.actors
     (filmDoc example_world example_languagesMap example_categoriesMap
        (example_film\<lparr>actor_ids := string_agg [1, 99]\<rparr>))
     = [Num 1, Num 99]"
  using film_actor_ids_kept
          [where w = example_world and languagesMap = example_languagesMap
             and categoriesMap = example_categoriesMap and film = example_film
             and ks = "[1, 99]"]
  by simp

text \<open>
  C5, at the identifier 0.  The film has the language identifier 0 and the
  original-language identifier 0, and the language mapping has an entry for 0.  The
  \<open>language\<close> field is resolved to that entry.  The \<open>original_language\<close> field is
  \<^verbatim>\<open>null\<close>: the test in front of its lookup is a truthiness test, which takes the
  present identifier 0 for an absent one.
\<close>

theorem original_language_zero_is_null:
  "original_language_id (example_film\<lparr>film_row.language_id := 0, original_language_id := Some 0\<rparr>)
     = Some 0 \<and>
   film_doc.language
     (filmDoc example_world [0 \<mapsto> \<lparr>obj_id = 0, name = ''Esperanto''\<rparr>] example_categoriesMap
        (example_film\<lparr>film_row.language_id := 0, original_language_id := Some 0\<rparr>))
     = Some \<lparr>obj_id = 0, name = ''Esperanto''\<rparr> \<and>
   film_doc.original_language
     (filmDoc example_world [0 \<mapsto> \<lparr>obj_id = 0, name = ''Esperanto''\<rparr>] example_categoriesMap
        (example_film\<lparr>film_row.language_id := 0, original_language_id := Some 0\<rparr>))
     = Null"
  by (simp add: filmDoc_def js_simps)

text \<open>
  The value that the built document holds when the original-language identifier is
  present and not zero and the language mapping has no entry for it: \<^verbatim>\<open>undefined\<close>,
  where an absent identifier gives \<^verbatim>\<open>null\<close>.  What the document store keeps of such a
  field is decided by its driver and is not part of this development.
\<close>

lemma original_language_unmapped_undefined:
  "original_language_id film = Some k \<Longrightarrow> k \<noteq> 0 \<Longrightarrow> languagesMap k = None \<Longrightarrow>
     film_doc.original_language (filmDoc w languagesMap categoriesMap film) = Undefined \<and>
     film_doc.original_language
       (filmDoc w languagesMap categoriesMap (film\<lparr>original_language_id := None\<rparr>)) = Null"
  by (simp add: filmDoc_def if_truthy_int_def)

text \<open>
  C7.  The \<open>special_features\<close> field of the document is always a list.  It is empty when
  the source text is absent or empty.  For a non-empty text it is the text split at the
  commas: the pieces contain no comma, and joined by commas they give the text back.
\<close>

theorem special_features_split_or_empty:
  "(film_row.special_features film = None \<or> film_row.special_features film = Some [] \<longrightarrow>
      film_doc.special_features (filmDoc w languagesMap categoriesMap film) = []) \<and>
   (\<forall>s. film_row.special_features film = Some s \<and> s \<noteq> [] \<longrightarrow>
      film_doc.special_features (filmDoc w languagesMap categoriesMap film)
        = js_split CHR '','' s \<and>
      join_comma (film_doc.special_features (filmDoc w languagesMap categoriesMap film)) = s \<and>
      (\<forall>p \<in> set (film_doc.special_features (filmDoc w languagesMap categoriesMap film)).
         CHR '','' \<notin> set p))"
  by (auto simp: filmDoc_def if_truthy_str_def join_js_split dest: js_split_pieces)

theorem special_features_split_or_empty_witness:
  "film_doc.special_features
     (filmDoc example_world example_languagesMap example_categoriesMap example_film)
     = [''Trailers'', ''Deleted Scenes''] \<and>
   film_doc.special_features
     (filmDoc example_world example_languagesMap example_categoriesMap
        (example_film\<lparr>film_row.special_features := None\<rparr>)) = [] \<and>
   film_doc.special_features
     (filmDoc example_world example_languagesMap example_categoriesMap
        (example_film\<lparr>film_row.special_features := Some []\<rparr>)) = []"
  using special_features_split_or_empty
          [where w = example_world and languagesMap = example_languagesMap
             and categoriesMap = example_categoriesMap and film = example_film]
        special_features_split_or_empty
          [where w = example_world and languagesMap = example_languagesMap
             and categoriesMap = example_categoriesMap
             and film = "example_film\<lparr>film_row.special_features := None\<rparr>"]
        special_features_split_or_empty
          [where w = example_world and languagesMap = example_languagesMap
             and categoriesMap = example_categoriesMap
             and film = "example_film\<lparr>film_row.special_features := Some []\<rparr>"]
  by (simp add: example_film_def)

section \<open>Calls issued by a run\<close>

lemmas run_simps =
  runMigration_def try_block_def connect_databases_def cleanup_def migrate_def finally_block_def
  when_set_def new_pgClient_def new_redisClient_def new_mongoClient_def
  migrateCountriesToRedis_def migrateCitiesToRedis_def migrateActorsToMongoDB_def
  migrateFilmsToMongoDB_def fetchCountries_def fetchCities_def fetchLanguages_def
  fetchCategories_def fetchActors_def fetchFilms_def await_def ret_def invoke_def start_def

lemma trace_effect [simp]: "trace (effect c s) = trace s"
  by (cases c) simp_all

lemma handles_effect [simp]:
  "pgClient (effect c s) = pgClient s"
  "redisClient (effect c s) = redisClient s"
  "mongoClient (effect c s) = mongoClient s"
  by (cases c; simp)+




















section \<open>The actor load\<close>

text \<open>
  C8.  Provided the actor query does not raise:
  \<^item> with no actor row the load issues the query and nothing else, in particular no
    bulk insert, changes no store and returns without an error;
  \<^item> with one or more rows it issues, after the query, exactly one bulk insert into
    \<^verbatim>\<open>actors\<close> that carries one document per row, whose \<^verbatim>\<open>_id\<close> is the row's actor
    identifier.  When that insert does not raise, the load returns without an error
    and the \<^verbatim>\<open>actors\<close> collection holds what it held before followed by these
    documents, everything else being as it was; when it raises, the load ends with
    that error.
\<close>

theorem actors_one_bulk_insert:
  "\<not> raises w s (Query Actor) \<Longrightarrow>
     (actor_table w = [] \<longrightarrow>
        migrateActorsToMongoDB w s = (Inr (), s\<lparr>trace := trace s @ [Query Actor]\<rparr>)) \<and>
     (actor_table w \<noteq> [] \<longrightarrow>
        map (actor_doc.doc_id \<circ> actorDoc) (actor_table w) = map actor_id (actor_table w) \<and>
        trace (snd (migrateActorsToMongoDB w s)) =
          trace s @ [Query Actor,
                     InsertMany ''actors'' (map (ActorDoc \<circ> actorDoc) (actor_table w))] \<and>
        (\<not> raises w (s\<lparr>trace := trace s @ [Query Actor]\<rparr>)
                    (InsertMany ''actors'' (map (ActorDoc \<circ> actorDoc) (actor_table w))) \<longrightarrow>
           migrateActorsToMongoDB w s =
             (Inr (),
              s\<lparr>trace := trace s @ [Query Actor,
                     InsertMany ''actors'' (map (ActorDoc \<circ> actorDoc) (actor_table w))],
                mongo := (mongo s)(''actors'' :=
                     mongo s ''actors'' @ map (ActorDoc \<circ> actorDoc) (actor_table w))\<rparr>)) \<and>
        (raises w (s\<lparr>trace := trace s @ [Query Actor]\<rparr>)
                  (InsertMany ''actors'' (map (ActorDoc \<circ> actorDoc) (actor_table w))) \<longrightarrow>
           migrateActorsToMongoDB w s =
             (Inl (Raised (InsertMany ''actors'' (map (ActorDoc \<circ> actorDoc) (actor_table w)))),
              s\<lparr>trace := trace s @ [Query Actor,
                     InsertMany ''actors'' (map (ActorDoc \<circ> actorDoc) (actor_table w))]\<rparr>)))"
  by (simp add: migrateActorsToMongoDB_def fetchActors_def await_def ret_def invoke_def Let_def
        actorDoc_def comp_def)

theorem actors_one_bulk_insert_witness:
  "migrateActorsToMongoDB (example_world\<lparr>actor_table := []\<rparr>) (start stale_redis stale_mongo) =
     (Inr (), (start stale_redis stale_mongo)\<lparr>trace := [Query Actor]\<rparr>) \<and>
   fst (migrateActorsToMongoDB example_world (start stale_redis stale_mongo)) = Inr () \<and>
   trace (snd (migrateActorsToMongoDB example_world (start stale_redis stale_mongo))) =
     [Query Actor,
      InsertMany ''actors''
        [ActorDoc \<lparr>actor_doc.doc_id = 1, actor_doc.first_name = ''PENELOPE'',
                   actor_doc.last_name = ''GUINESS'',
                   actor_doc.last_update = ''2006-02-15T04:34:33.000Z''\<rparr>]] \<and>
   mongo (snd (migrateActorsToMongoDB example_world (start stale_redis stale_mongo))) ''actors'' =
     [ActorDoc \<lparr>actor_doc.doc_id = 500, actor_doc.first_name = ''OLD'',
                actor_doc.last_name = ''ENTRY'',
                actor_doc.last_update = ''2005-01-01T00:00:00.000Z''\<rparr>,
      ActorDoc \<lparr>actor_doc.doc_id = 1, actor_doc.first_name = ''PENELOPE'',
                actor_doc.last_name = ''GUINESS'',
                actor_doc.last_update = ''2006-02-15T04:34:33.000Z''\<rparr>]"
  using actors_one_bulk_insert
          [where w = "example_world\<lparr>actor_table := []\<rparr>" and s = "start stale_redis stale_mongo"]
        actors_one_bulk_insert[where w = example_world and s = "start stale_redis stale_mongo"]
  by (simp add: example_world_def start_def actorDoc_def stale_mongo_def)

section \<open>The cleanup step\<close>



section \<open>Teardown\<close>

text \<open>
  The example run enters the \<^verbatim>\<open>finally\<close> block in \<open>teardown_start\<close>, also in the worlds
  where a close raises, and all three handles are assigned there.
\<close>

lemma teardown_start_reached:
  "try_block example_world empty_stores = (Inr (), teardown_start)"
  "try_block pg_close_fails empty_stores = (Inr (), teardown_start)"
  "try_block redis_close_fails empty_stores = (Inr (), teardown_start)"
  "try_block mongo_close_fails empty_stores = (Inr (), teardown_start)"
  by (simp_all add: teardown_start_def run_simps filmDoc_def pg_close_fails_def
        redis_close_fails_def mongo_close_fails_def empty_stores_def example_world_def Let_def)

lemma teardown_start_handles:
  "pgClient teardown_start" "redisClient teardown_start" "mongoClient teardown_start"
  by (simp_all add: teardown_start_def run_simps empty_stores_def example_world_def Let_def)


text \<open>
  C1, on a failing run.  All three connections open, the actors are inserted, and the
  bulk insert into \<^verbatim>\<open>films\<close> raises.  The run ends by \<^verbatim>\<open>process.exit(1)\<close> in the
  \<^verbatim>\<open>catch\<close> block; the insert that raised is the last call of the run, no close is
  attempted, and the three connections are still open.  The actor documents stay in
  their collection.
\<close>

theorem exit_without_teardown:
  "fst (runMigration film_insert_fails empty_stores) = ProcessExit 1 \<and>
   trace (snd (runMigration film_insert_fails empty_stores)) =
     [PgConnect, RedisConnect, MongoConnect,
      Query Country,
      HSet ''country:20'' [(''country_id'', ''20''), (''country_name'', ''Canada''),
                           (''last_update'', ''2006-02-15T04:44:00.000Z'')],
      Query City,
      HSet ''city:300'' [(''city_id'', ''300''), (''city_name'', ''Toronto''),
                         (''country_id'', ''20''), (''last_update'', ''2006-02-15T04:45:25.000Z'')],
      Query Language, Query Category,
      Query Actor,
      InsertMany ''actors'' (map (ActorDoc \<circ> actorDoc) (actor_table example_world)),
      Query Film,
      InsertMany ''films''
        [FilmDoc (filmDoc film_insert_fails example_languagesMap example_categoriesMap
                    example_film)]] \<and>
   pg_open (snd (runMigration film_insert_fails empty_stores)) \<and>
   redis_open (snd (runMigration film_insert_fails empty_stores)) \<and>
   mongo_open (snd (runMigration film_insert_fails empty_stores)) \<and>
   mongo (snd (runMigration film_insert_fails empty_stores)) ''actors'' =
     map (ActorDoc \<circ> actorDoc) (actor_table example_world) \<and>
   mongo (snd (runMigration film_insert_fails empty_stores)) ''films'' = []"
  by (simp add: run_simps film_insert_fails_def empty_stores_def example_world_def Let_def
        example_languagesMap_def example_categoriesMap_def int_text_def nat_text.simps
        digit_char_def)

text \<open>
  C2, as the script behaves.  Nothing raises until the \<^verbatim>\<open>finally\<close> block, where the
  close of the relational connection raises.  That is the only close attempted: the
  key-value and document handles are assigned and their connections stay open, and the
  error leaves \<^verbatim>\<open>runMigration\<close> unhandled.
\<close>

theorem close_failure_skips_rest_counterexample:
  "fst (runMigration pg_close_fails empty_stores) = Rejected (Raised PgEnd) \<and>
   filter is_close (trace (snd (runMigration pg_close_fails empty_stores))) = [PgEnd] \<and>
   redisClient (snd (runMigration pg_close_fails empty_stores)) \<and>
   redis_open (snd (runMigration pg_close_fails empty_stores)) \<and>
   mongoClient (snd (runMigration pg_close_fails empty_stores)) \<and>
   mongo_open (snd (runMigration pg_close_fails empty_stores))"
  by (simp add: run_simps pg_close_fails_def empty_stores_def example_world_def Let_def)

text \<open>
  C2, amended.  In the \<^verbatim>\<open>finally\<close> block each close is behind a test of its own handle
  variable and of nothing else, and the closes are attempted in the order relational,
  key-value, document.  Below, \<open>s1\<close>, \<open>s2\<close> and \<open>s3\<close> are the states after the
  relational, the key-value and the document step when the step does not raise.
  \<^item> If the relational handle is assigned and its close raises, the block ends with
    that error and no other close is attempted.
  \<^item> Otherwise, if the key-value handle is assigned and its close raises, the block
    ends with that error and the document close is not attempted.
  \<^item> Otherwise, if the document handle is assigned and its close raises, the block ends
    with that error.
  \<^item> If no attempted close raises, the block returns, every assigned handle has been
    closed in order, and a handle that is not assigned has not been touched.
\<close>

theorem first_raising_close_ends_teardown:
  "(let s1 = (if pgClient s then s\<lparr>trace := trace s @ [PgEnd], pg_open := False\<rparr> else s);
        s2 = (if redisClient s
              then s1\<lparr>trace := trace s1 @ [RedisQuit], redis_open := False\<rparr> else s1);
        s3 = (if mongoClient s
              then s2\<lparr>trace := trace s2 @ [MongoClose], mongo_open := False\<rparr> else s2)
    in (pgClient s \<and> raises w s PgEnd \<longrightarrow>
          finally_block w s = (Inl (Raised PgEnd), s\<lparr>trace := trace s @ [PgEnd]\<rparr>)) \<and>
       (\<not> (pgClient s \<and> raises w s PgEnd) \<and> redisClient s \<and> raises w s1 RedisQuit \<longrightarrow>
          finally_block w s = (Inl (Raised RedisQuit), s1\<lparr>trace := trace s1 @ [RedisQuit]\<rparr>)) \<and>
       (\<not> (pgClient s \<and> raises w s PgEnd) \<and> \<not> (redisClient s \<and> raises w s1 RedisQuit) \<and>
        mongoClient s \<and> raises w s2 MongoClose \<longrightarrow>
          finally_block w s = (Inl (Raised MongoClose), s2\<lparr>trace := trace s2 @ [MongoClose]\<rparr>)) \<and>
       (\<not> (pgClient s \<and> raises w s PgEnd) \<and> \<not> (redisClient s \<and> raises w s1 RedisQuit) \<and>
        \<not> (mongoClient s \<and> raises w s2 MongoClose) \<longrightarrow>
          finally_block w s = (Inr (), s3)))"
  by (simp add: finally_block_def when_set_def invoke_def Let_def)

theorem first_raising_close_ends_teardown_witness:
  "finally_block pg_close_fails teardown_start =
     (Inl (Raised PgEnd), teardown_start\<lparr>trace := trace teardown_start @ [PgEnd]\<rparr>) \<and>
   finally_block redis_close_fails teardown_start =
     (Inl (Raised RedisQuit),
      teardown_start\<lparr>trace := trace teardown_start @ [PgEnd, RedisQuit], pg_open := False\<rparr>) \<and>
   finally_block mongo_close_fails teardown_start =
     (Inl (Raised MongoClose),
      teardown_start\<lparr>trace := trace teardown_start @ [PgEnd, RedisQuit, MongoClose],
                       pg_open := False, redis_open := False\<rparr>) \<and>
   finally_block example_world teardown_start =
     (Inr (),
      teardown_start\<lparr>trace := trace teardown_start @ [PgEnd, RedisQuit, MongoClose],
                       pg_open := False, redis_open := False, mongo_open := False\<rparr>)"
  using first_raising_close_ends_teardown[where w = pg_close_fails and s = teardown_start]
        first_raising_close_ends_teardown[where w = redis_close_fails and s = teardown_start]
        first_raising_close_ends_teardown[where w = mongo_close_fails and s = teardown_start]
        first_raising_close_ends_teardown[where w = example_world and s = teardown_start]
  by (simp add: teardown_start_handles pg_close_fails_def redis_close_fails_def
        mongo_close_fails_def example_world_def Let_def)

end
